theory Spec2Isabelle
  imports Main "HOL-Library.Multiset"
begin

section \<open>Strings\<close>

text \<open>
  JavaScript strings are modelled as \<open>string\<close>. \<open>String.prototype.trim\<close> removes white
  space and line terminators from both ends; on the ASCII range these are the six characters
  below.
\<close>

definition isSpace :: "char \<Rightarrow> bool" where
  "isSpace c = (c \<in> set [CHR 0x09, CHR 0x0A, CHR 0x0B, CHR 0x0C, CHR 0x0D, CHR 0x20])"

definition trim :: "string \<Rightarrow> string" where
  "trim s = rev (dropWhile isSpace (rev (dropWhile isSpace s)))"

text \<open>\<open>Number.prototype.toString\<close> on a non-negative integer: its decimal digits.\<close>

definition digit :: "nat \<Rightarrow> char" where
  "digit d = ''0123456789'' ! d"

fun toString :: "nat \<Rightarrow> string" where
  "toString n = (if n < 10 then [digit n] else toString (n div 10) @ [digit (n mod 10)])"

declare toString.simps [simp del]

section \<open>The Task model\<close>

text \<open>
  \<open>class Task\<close> of both clients. \<open>createdAt\<close> is the clock reading (milliseconds) that
  \<open>toISOString\<close> renders.
\<close>

record task =
  id_task :: string
  title :: string
  isDone :: bool
  createdAt :: nat

section \<open>The relational backend\<close>

text \<open>
  The table \<open>tasks(id, title, is_done, created_at, updated_at)\<close> with \<open>id\<close> as primary key
  (the schema of the setup guide). A statement either raises or returns the rows of its
  \<open>RETURNING\<close> clause together with the new table.
\<close>

record row =
  row_id :: string
  row_title :: string
  is_done :: bool
  created_at :: nat
  updated_at :: nat

type_synonym table = "row list"

datatype dberror = ConnectionError | UniqueViolation

text \<open>\<open>RETURNING id, title, is_done as "isDone", created_at as "createdAt"\<close>\<close>

definition returning :: "row \<Rightarrow> task" where
  "returning r = \<lparr>id_task = row_id r, title = row_title r, isDone = is_done r,
     createdAt = created_at r\<rparr>"

text \<open>
  \<open>SELECT ... ORDER BY created_at DESC\<close>. SQL leaves the order of rows with equal
  \<open>created_at\<close> open; the model takes the reverse of a stable sort.
\<close>

definition sql_select_all :: "table \<Rightarrow> dberror + (task list \<times> table)" where
  "sql_select_all tbl = Inr (map returning (rev (sort_key created_at tbl)), tbl)"

definition sql_insert :: "row \<Rightarrow> table \<Rightarrow> dberror + (task list \<times> table)" where
  "sql_insert r tbl =
     (if row_id r \<in> set (map row_id tbl) then Inl UniqueViolation
      else Inr ([returning r], tbl @ [r]))"

text \<open>
  \<open>UPDATE tasks SET updated_at = NOW() [, title = $n] [, is_done = $n] WHERE id = $n\<close>:
  the optional assignments are the two \<open>option\<close> arguments.
\<close>

definition update_row :: "nat \<Rightarrow> string option \<Rightarrow> bool option \<Rightarrow> row \<Rightarrow> row" where
  "update_row t st sd r =
     r\<lparr>row_title := (case st of None \<Rightarrow> row_title r | Some x \<Rightarrow> x),
       is_done := (case sd of None \<Rightarrow> is_done r | Some b \<Rightarrow> b),
       updated_at := t\<rparr>"

definition sql_update ::
  "nat \<Rightarrow> string option \<Rightarrow> bool option \<Rightarrow> string \<Rightarrow> table \<Rightarrow> dberror + (task list \<times> table)" where
  "sql_update t st sd i tbl =
     Inr (map (returning \<circ> update_row t st sd) (filter (\<lambda>r. row_id r = i) tbl),
          map (\<lambda>r. if row_id r = i then update_row t st sd r else r) tbl)"

definition sql_delete :: "string \<Rightarrow> table \<Rightarrow> dberror + (task list \<times> table)" where
  "sql_delete i tbl =
     Inr (map returning (filter (\<lambda>r. row_id r = i) tbl), filter (\<lambda>r. row_id r \<noteq> i) tbl)"

text \<open>
  The environment of one request: the clock reading \<open>now\<close> that \<open>Date.now()\<close>,
  \<open>new Date()\<close> and \<open>NOW()\<close> return on the server, the time \<open>time\<close> of the browser's event
  loop, whether the request reaches the server and its answer the browser (\<open>netOk\<close>), and
  whether the connection pool can execute a statement (\<open>dbOk\<close>).
\<close>

record env =
  now :: nat
  time :: nat
  netOk :: bool
  dbOk :: bool

text \<open>\<open>query\<close> of the database configuration: runs the statement or rethrows.\<close>

definition query ::
  "env \<Rightarrow> (table \<Rightarrow> dberror + (task list \<times> table)) \<Rightarrow> table \<Rightarrow> dberror + (task list \<times> table)" where
  "query e stmt tbl = (if dbOk e then stmt tbl else Inl ConnectionError)"

section \<open>The REST routes\<close>

datatype payload = NoData | One task | Many "task list"

record response =
  status :: nat
  success :: bool
  data :: payload
  error :: "string option"
  message :: "string option"

definition failure :: "nat \<Rightarrow> string \<Rightarrow> response" where
  "failure st msg = \<lparr>status = st, success = False, data = NoData, error = Some msg,
     message = None\<rparr>"

text \<open>The request body \<open>{ title?: string, isDone?: boolean }\<close>.\<close>

record body =
  b_title :: "string option"
  b_isDone :: "bool option"

text \<open>\<open>router.get('/tasks')\<close>\<close>

definition get_tasks :: "env \<Rightarrow> table \<Rightarrow> response \<times> table" where
  "get_tasks e tbl =
     (case query e sql_select_all tbl of
        Inl _ \<Rightarrow> (failure 500 ''Failed to fetch tasks'', tbl)
      | Inr (rows, tbl') \<Rightarrow>
          (\<lparr>status = 200, success = True, data = Many rows, error = None, message = None\<rparr>,
           tbl'))"

text \<open>\<open>router.post('/tasks')\<close>\<close>

definition post_tasks :: "env \<Rightarrow> body \<Rightarrow> table \<Rightarrow> response \<times> table" where
  "post_tasks e b tbl =
     (case b_title b of
        None \<Rightarrow> (failure 400 ''Title is required'', tbl)
      | Some t \<Rightarrow>
          if t = [] \<or> trim t = [] then (failure 400 ''Title is required'', tbl)
          else
            (case query e (sql_insert \<lparr>row_id = toString (now e), row_title = trim t,
                     is_done = False, created_at = now e, updated_at = now e\<rparr>) tbl of
               Inl _ \<Rightarrow> (failure 500 ''Failed to create task'', tbl)
             | Inr (rows, tbl') \<Rightarrow>
                 (\<lparr>status = 201, success = True, data = One (hd rows), error = None,
                    message = None\<rparr>, tbl')))"

text \<open>\<open>router.put('/tasks/:id')\<close>\<close>

definition put_task :: "env \<Rightarrow> string \<Rightarrow> body \<Rightarrow> table \<Rightarrow> response \<times> table" where
  "put_task e i b tbl =
     (let st = (case b_title b of
                  None \<Rightarrow> None
                | Some t \<Rightarrow> if trim t \<noteq> [] then Some (trim t) else None)
      in case query e (sql_update (now e) st (b_isDone b) i) tbl of
           Inl _ \<Rightarrow> (failure 500 ''Failed to update task'', tbl)
         | Inr (rows, tbl') \<Rightarrow>
             if length rows = 0 then (failure 404 ''Task not found'', tbl')
             else (\<lparr>status = 200, success = True, data = One (hd rows), error = None,
                     message = None\<rparr>, tbl'))"

text \<open>\<open>router.delete('/tasks/:id')\<close>\<close>

definition delete_task :: "env \<Rightarrow> string \<Rightarrow> table \<Rightarrow> response \<times> table" where
  "delete_task e i tbl =
     (case query e (sql_delete i) tbl of
        Inl _ \<Rightarrow> (failure 500 ''Failed to delete task'', tbl)
      | Inr (rows, tbl') \<Rightarrow>
          if length rows = 0 then (failure 404 ''Task not found'', tbl')
          else (\<lparr>status = 200, success = True, data = One (hd rows), error = None,
                  message = Some ''Task deleted successfully''\<rparr>, tbl'))"

text \<open>
  The router: one handler per method and path. The route \<open>DELETE /tasks-completed\<close>, which
  neither client calls, is left out.
\<close>

datatype request = GET_tasks | POST_tasks body | PUT_tasks string body | DELETE_tasks string

fun server :: "env \<Rightarrow> request \<Rightarrow> table \<Rightarrow> response \<times> table" where
  "server e GET_tasks tbl = get_tasks e tbl"
| "server e (POST_tasks b) tbl = post_tasks e b tbl"
| "server e (PUT_tasks i b) tbl = put_task e i b tbl"
| "server e (DELETE_tasks i) tbl = delete_task e i tbl"

section \<open>JavaScript arrays\<close>

text \<open>\<open>Array.prototype.findIndex\<close>: the first position that satisfies the predicate, or -1.\<close>

definition findIndex :: "('a \<Rightarrow> bool) \<Rightarrow> 'a list \<Rightarrow> int" where
  "findIndex P xs =
     (case List.find P xs of
        None \<Rightarrow> - 1
      | Some _ \<Rightarrow> int (length (takeWhile (\<lambda>x. \<not> P x) xs)))"

text \<open>
  \<open>Array.prototype.splice(start, deleteCount, ...items)\<close>: a negative start counts from the
  end, and a start beyond either end is clamped.
\<close>

definition splice_js :: "int \<Rightarrow> nat \<Rightarrow> 'a list \<Rightarrow> 'a list \<Rightarrow> 'a list" where
  "splice_js start deleteCount items xs =
     (let len = int (length xs);
          s = nat (if start < 0 then max (len + start) 0 else min start len)
      in take s xs @ items @ drop (s + deleteCount) xs)"

section \<open>The client state\<close>

text \<open>
  The fields of \<open>class ToDoApp\<close> that the task operations read or write, and the snackbar
  element. \<open>snackbarTimeout\<close> is the expiry time of the live hide timer, \<open>undoTimers\<close> the
  expiry times of the callbacks that \<open>deleteTask\<close> has scheduled and that have not run yet.
  \<open>deletedAlias\<close> records object identity: the position in \<open>tasks\<close> of the very object that
  \<open>deletedTask\<close> refers to, when that object is in the array (after a rollback).
\<close>

record app =
  tasks :: "task list"
  deletedTask :: "task option"
  deletedTaskIndex :: int
  snackbarMessage :: string
  snackbarActive :: bool
  snackbarTimeout :: "nat option"
  undoTimers :: "nat list"
  deletedAlias :: "nat option"

definition new_app :: app where
  "new_app = \<lparr>tasks = [], deletedTask = None, deletedTaskIndex = - 1, snackbarMessage = [],
     snackbarActive = False, snackbarTimeout = None, undoTimers = [], deletedAlias = None\<rparr>"

definition showSnackbar :: "nat \<Rightarrow> string \<Rightarrow> app \<Rightarrow> app" where
  "showSnackbar t msg a =
     a\<lparr>snackbarMessage := msg, snackbarActive := True, snackbarTimeout := Some (t + 4000)\<rparr>"

definition hideSnackbar :: "app \<Rightarrow> app" where
  "hideSnackbar a = a\<lparr>snackbarActive := False, snackbarTimeout := None\<rparr>"

text \<open>
  Assignment to a field of the first task with the given id (\<open>tasks.find\<close>, then
  \<open>task.f = v\<close>): the object changes in the array and, when \<open>deletedTask\<close> is that object,
  there as well.
\<close>

definition mutate :: "string \<Rightarrow> (task \<Rightarrow> task) \<Rightarrow> app \<Rightarrow> app" where
  "mutate i f a =
     (let k = length (takeWhile (\<lambda>t. id_task t \<noteq> i) (tasks a))
      in a\<lparr>tasks := (tasks a)[k := f (tasks a ! k)],
           deletedTask := (if deletedAlias a = Some k then map_option f (deletedTask a)
                           else deletedTask a)\<rparr>)"

text \<open>The callbacks whose time has come by \<open>t\<close> run: the undo expiry and the snackbar hide.\<close>

definition runTimers :: "nat \<Rightarrow> app \<Rightarrow> app" where
  "runTimers t a =
     (let a1 = (if filter (\<lambda>x. x \<le> t) (undoTimers a) = [] then a
                else a\<lparr>deletedTask := None, deletedTaskIndex := - 1, deletedAlias := None,
                       undoTimers := filter (\<lambda>x. t < x) (undoTimers a)\<rparr>)
      in case snackbarTimeout a1 of
           None \<Rightarrow> a1
         | Some x \<Rightarrow> if x \<le> t then hideSnackbar a1 else a1)"

section \<open>The client of the REST API\<close>

text \<open>
  \<open>apiCall\<close>: \<open>fetch\<close> rejects when the network fails; a status outside 200..299 throws the
  server's error text. Either way the snackbar shows the error and the error is rethrown
  (\<open>Inl\<close>).
\<close>

text \<open>The message of the error that \<open>fetch\<close> rejects with, in Chrome's wording.\<close>

definition networkError :: string where
  "networkError = ''Failed to fetch''"

definition apiCall :: "env \<Rightarrow> request \<Rightarrow> app \<times> table \<Rightarrow> (string + response) \<times> app \<times> table" where
  "apiCall e rq s =
     (case s of (a, tbl) \<Rightarrow>
        if \<not> netOk e
        then (Inl networkError, showSnackbar (time e) (''Error: '' @ networkError) a, tbl)
        else
          (case server e rq tbl of (resp, tbl') \<Rightarrow>
             if 200 \<le> status resp \<and> status resp \<le> 299 then (Inr resp, a, tbl')
             else
               (let msg = (case error resp of
                             None \<Rightarrow> ''API error: '' @ toString (status resp)
                           | Some m \<Rightarrow> if m \<noteq> [] then m
                                       else ''API error: '' @ toString (status resp))
                in (Inl msg, showSnackbar (time e) (''Error: '' @ msg) a, tbl'))))"

text \<open>
  The operations of \<open>class ToDoApp\<close>, each from the state before to the state after its
  \<open>await\<close>s; rendering, the modal and \<open>isLoading\<close> are left out. Where the answer lacks
  the data an operation reads, the \<open>TypeError\<close> ends in the operation's \<open>catch\<close>.

  \<open>loadTasks\<close>
\<close>

definition loadTasks_api :: "env \<Rightarrow> app \<times> table \<Rightarrow> app \<times> table" where
  "loadTasks_api e s =
     (case apiCall e GET_tasks s of
        (Inl _, a, tbl) \<Rightarrow> (a\<lparr>tasks := [], deletedAlias := None\<rparr>, tbl)
      | (Inr resp, a, tbl) \<Rightarrow>
          if success resp then
            (case data resp of
               Many rs \<Rightarrow> (a\<lparr>tasks := rs, deletedAlias := None\<rparr>, tbl)
             | _ \<Rightarrow> (a\<lparr>tasks := [], deletedAlias := None\<rparr>, tbl))
          else (a, tbl))"

text \<open>\<open>addTask(title)\<close>\<close>

definition addTask_api :: "env \<Rightarrow> string \<Rightarrow> app \<times> table \<Rightarrow> app \<times> table" where
  "addTask_api e t s =
     (case apiCall e (POST_tasks \<lparr>b_title = Some t, b_isDone = None\<rparr>) s of
        (Inl _, a, tbl) \<Rightarrow> (a, tbl)
      | (Inr resp, a, tbl) \<Rightarrow>
          if success resp then
            (case data resp of
               One newTask \<Rightarrow>
                 (showSnackbar (time e) ''Task added successfully''
                    (a\<lparr>tasks := newTask # tasks a,
                       deletedAlias := map_option Suc (deletedAlias a)\<rparr>), tbl)
             | _ \<Rightarrow> (a, tbl))
          else (a, tbl))"

text \<open>\<open>toggleTask(id)\<close>\<close>

definition toggleTask_api :: "env \<Rightarrow> string \<Rightarrow> app \<times> table \<Rightarrow> app \<times> table" where
  "toggleTask_api e i s =
     (case List.find (\<lambda>t. id_task t = i) (tasks (fst s)) of
        None \<Rightarrow> s
      | Some task \<Rightarrow>
          (case apiCall e (PUT_tasks i \<lparr>b_title = None, b_isDone = Some (\<not> isDone task)\<rparr>) s of
             (Inl _, a, tbl) \<Rightarrow> (a, tbl)
           | (Inr resp, a, tbl) \<Rightarrow>
               if success resp then
                 (case data resp of
                    One d \<Rightarrow> (mutate i (\<lambda>t. t\<lparr>isDone := isDone d\<rparr>) a, tbl)
                  | _ \<Rightarrow> (a, tbl))
               else (a, tbl)))"

text \<open>\<open>deleteTask(id)\<close>\<close>

definition deleteTask_api :: "env \<Rightarrow> string \<Rightarrow> app \<times> table \<Rightarrow> app \<times> table" where
  "deleteTask_api e i s =
     (case s of (a, tbl) \<Rightarrow>
        (let index = findIndex (\<lambda>t. id_task t = i) (tasks a)
         in if index = - 1 then s
            else
              (let a1 = a\<lparr>deletedTask := Some (tasks a ! nat index), deletedTaskIndex := index,
                          deletedAlias := None, tasks := splice_js index 1 [] (tasks a)\<rparr>
               in case apiCall e (DELETE_tasks i) (a1, tbl) of
                    (Inr _, a2, tbl') \<Rightarrow>
                      (case deletedTask a2 of
                         None \<Rightarrow> (a2, tbl')
                       | Some d \<Rightarrow>
                           ((showSnackbar (time e)
                               (''Deleted '' @ [CHR 0x22] @ title d @ [CHR 0x22]) a2)
                              \<lparr>undoTimers := undoTimers a2 @ [time e + 5000]\<rparr>, tbl'))
                  | (Inl _, a2, tbl') \<Rightarrow>
                      (case deletedTask a2 of
                         None \<Rightarrow> (a2, tbl')
                       | Some d \<Rightarrow>
                           if deletedTaskIndex a2 \<noteq> - 1
                           then (a2\<lparr>tasks := splice_js (deletedTaskIndex a2) 0 [d] (tasks a2),
                                    deletedAlias := Some (nat (deletedTaskIndex a2))\<rparr>, tbl')
                           else (a2, tbl')))))"

text \<open>\<open>undoDelete()\<close>\<close>

definition undoDelete_api :: "env \<Rightarrow> app \<times> table \<Rightarrow> app \<times> table" where
  "undoDelete_api e s =
     (case deletedTask (fst s) of
        None \<Rightarrow> s
      | Some d \<Rightarrow>
          (case apiCall e (POST_tasks \<lparr>b_title = Some (title d), b_isDone = None\<rparr>) s of
             (Inl _, a, tbl) \<Rightarrow> (a, tbl)
           | (Inr resp, a, tbl) \<Rightarrow>
               if success resp then
                 (case data resp of
                    One restoredTask \<Rightarrow>
                      (showSnackbar (time e) ''Task restored''
                         ((hideSnackbar
                             (a\<lparr>tasks := splice_js (deletedTaskIndex a) 0 [restoredTask] (tasks a)\<rparr>))
                            \<lparr>deletedTask := None, deletedTaskIndex := - 1,
                             deletedAlias := None\<rparr>), tbl)
                  | _ \<Rightarrow> (a, tbl))
               else (a, tbl)))"

text \<open>\<open>editTask(id, newTitle)\<close>\<close>

definition editTask_api :: "env \<Rightarrow> string \<Rightarrow> string \<Rightarrow> app \<times> table \<Rightarrow> app \<times> table" where
  "editTask_api e i newTitle s =
     (if trim newTitle = [] then s
      else
        (case apiCall e (PUT_tasks i \<lparr>b_title = Some newTitle, b_isDone = None\<rparr>) s of
           (Inl _, a, tbl) \<Rightarrow> (a, tbl)
         | (Inr resp, a, tbl) \<Rightarrow>
             if success resp then
               (case List.find (\<lambda>t. id_task t = i) (tasks a) of
                  None \<Rightarrow> (a, tbl)
                | Some _ \<Rightarrow>
                    (case data resp of
                       One d \<Rightarrow>
                         (showSnackbar (time e) ''Task updated successfully''
                            (mutate i (\<lambda>t. t\<lparr>title := title d\<rparr>) a), tbl)
                     | _ \<Rightarrow> (a, tbl)))
             else (a, tbl)))"

section \<open>The client on local storage\<close>

text \<open>
  The browser's side of one operation: the reading \<open>clock\<close> of \<open>Date.now()\<close>, the time
  \<open>at\<close> of the event loop, and whether \<open>localStorage.setItem\<close> succeeds (it throws when the
  quota is exceeded). The stored item is the serialised task array, absent before the first
  save.
\<close>

record benv =
  clock :: nat
  at :: nat
  storageOk :: bool

type_synonym storage = "task list option"

text \<open>\<open>Task.create\<close>\<close>

definition create :: "nat \<Rightarrow> string \<Rightarrow> task" where
  "create t ttl = \<lparr>id_task = toString t, title = trim ttl, isDone = False, createdAt = t\<rparr>"

text \<open>\<open>saveTasks\<close> and \<open>loadTasks\<close>\<close>

definition saveTasks :: "benv \<Rightarrow> app \<times> storage \<Rightarrow> app \<times> storage" where
  "saveTasks be s = (case s of (a, st) \<Rightarrow> if storageOk be then (a, Some (tasks a)) else (a, st))"

definition loadTasks_local :: "app \<times> storage \<Rightarrow> app \<times> storage" where
  "loadTasks_local s =
     (case s of (a, st) \<Rightarrow>
        (case st of None \<Rightarrow> (a, st) | Some ts \<Rightarrow> (a\<lparr>tasks := ts\<rparr>, st)))"

text \<open>\<open>addTask()\<close>; the argument is the value of the input field.\<close>

definition addTask_local :: "benv \<Rightarrow> string \<Rightarrow> app \<times> storage \<Rightarrow> app \<times> storage" where
  "addTask_local be v s =
     (case s of (a, st) \<Rightarrow>
        (let ttl = trim v
         in if ttl = [] then s
            else saveTasks be
                   (a\<lparr>tasks := create (clock be) ttl # tasks a,
                      deletedAlias := map_option Suc (deletedAlias a)\<rparr>, st)))"

text \<open>\<open>toggleTask(id)\<close>\<close>

definition toggleTask_local :: "benv \<Rightarrow> string \<Rightarrow> app \<times> storage \<Rightarrow> app \<times> storage" where
  "toggleTask_local be i s =
     (case s of (a, st) \<Rightarrow>
        (case List.find (\<lambda>t. id_task t = i) (tasks a) of
           None \<Rightarrow> s
         | Some _ \<Rightarrow> saveTasks be (mutate i (\<lambda>t. t\<lparr>isDone := \<not> isDone t\<rparr>) a, st)))"

text \<open>\<open>deleteTask(id)\<close>\<close>

definition deleteTask_local :: "benv \<Rightarrow> string \<Rightarrow> app \<times> storage \<Rightarrow> app \<times> storage" where
  "deleteTask_local be i s =
     (case s of (a, st) \<Rightarrow>
        (let index = findIndex (\<lambda>t. id_task t = i) (tasks a)
         in if index = - 1 then s
            else
              (let d = tasks a ! nat index;
                   a1 = a\<lparr>deletedTask := Some d, deletedTaskIndex := index,
                          deletedAlias := None, tasks := splice_js index 1 [] (tasks a)\<rparr>
               in case saveTasks be (a1, st) of
                    (a2, st') \<Rightarrow>
                      (showSnackbar (at be)
                         (''Deleted '' @ [CHR 0x22] @ title d @ [CHR 0x22]) a2, st'))))"

text \<open>\<open>undoDelete()\<close>\<close>

definition undoDelete_local :: "benv \<Rightarrow> app \<times> storage \<Rightarrow> app \<times> storage" where
  "undoDelete_local be s =
     (case s of (a, st) \<Rightarrow>
        (case deletedTask a of
           None \<Rightarrow> s
         | Some d \<Rightarrow>
             if deletedTaskIndex a \<noteq> - 1 then
               (case saveTasks be (a\<lparr>tasks := splice_js (deletedTaskIndex a) 0 [d] (tasks a)\<rparr>, st) of
                  (a1, st') \<Rightarrow>
                    ((hideSnackbar a1)\<lparr>deletedTask := None, deletedTaskIndex := - 1,
                        deletedAlias := None\<rparr>, st'))
             else s))"

text \<open>\<open>editTask(id, newTitle)\<close>\<close>

definition editTask_local :: "benv \<Rightarrow> string \<Rightarrow> string \<Rightarrow> app \<times> storage \<Rightarrow> app \<times> storage" where
  "editTask_local be i newTitle s =
     (case s of (a, st) \<Rightarrow>
        (case List.find (\<lambda>t. id_task t = i) (tasks a) of
           None \<Rightarrow> s
         | Some _ \<Rightarrow>
             if trim newTitle \<noteq> [] then
               saveTasks be (mutate i (\<lambda>t. t\<lparr>title := trim newTitle\<rparr>) a, st)
             else s))"

section \<open>Sessions\<close>

text \<open>
  What the user can do. \<open>Reload\<close> opens the page anew: the constructor's fresh state, then
  \<open>loadTasks\<close>. Before an operation runs, the timer callbacks that are due have run.
\<close>

datatype op = Add string | Toggle string | Edit string string | Delete string | UndoDelete | Reload

fun perform_api :: "env \<Rightarrow> op \<Rightarrow> app \<times> table \<Rightarrow> app \<times> table" where
  "perform_api e (Add t) s = addTask_api e t s"
| "perform_api e (Toggle i) s = toggleTask_api e i s"
| "perform_api e (Edit i t) s = editTask_api e i t s"
| "perform_api e (Delete i) s = deleteTask_api e i s"
| "perform_api e UndoDelete s = undoDelete_api e s"
| "perform_api e Reload s = loadTasks_api e (new_app, snd s)"

definition step_api :: "env \<Rightarrow> op \<Rightarrow> app \<times> table \<Rightarrow> app \<times> table" where
  "step_api e opn s = perform_api e opn (runTimers (time e) (fst s), snd s)"

fun run_api :: "(env \<times> op) list \<Rightarrow> app \<times> table \<Rightarrow> app \<times> table" where
  "run_api [] s = s"
| "run_api (x # xs) s = run_api xs (step_api (fst x) (snd x) s)"

fun perform_local :: "benv \<Rightarrow> op \<Rightarrow> app \<times> storage \<Rightarrow> app \<times> storage" where
  "perform_local be (Add t) s = addTask_local be t s"
| "perform_local be (Toggle i) s = toggleTask_local be i s"
| "perform_local be (Edit i t) s = editTask_local be i t s"
| "perform_local be (Delete i) s = deleteTask_local be i s"
| "perform_local be UndoDelete s = undoDelete_local be s"
| "perform_local be Reload s = loadTasks_local (new_app, snd s)"

definition step_local :: "benv \<Rightarrow> op \<Rightarrow> app \<times> storage \<Rightarrow> app \<times> storage" where
  "step_local be opn s = perform_local be opn (runTimers (at be) (fst s), snd s)"

fun run_local :: "(benv \<times> op) list \<Rightarrow> app \<times> storage \<Rightarrow> app \<times> storage" where
  "run_local [] s = s"
| "run_local (x # xs) s = run_local xs (step_local (fst x) (snd x) s)"

section \<open>Specification predicates\<close>

text \<open>A stored title: not empty and equal to its own trimming.\<close>

definition validTitle :: "string \<Rightarrow> bool" where
  "validTitle s = (s \<noteq> [] \<and> trim s = s)"

text \<open>
  The row that \<open>POST /api/tasks\<close> inserts, and the conditions under which the client's
  call succeeds: for \<open>POST\<close> the request arrives, the title is not blank, the statement is
  executed and the primary key is new; for \<open>PUT\<close> and \<open>DELETE\<close> the request arrives, the
  statement is executed and a row has the id.
\<close>

definition new_row :: "env \<Rightarrow> string \<Rightarrow> row" where
  "new_row e t = \<lparr>row_id = toString (now e), row_title = trim t, is_done = False,
     created_at = now e, updated_at = now e\<rparr>"

definition postOk :: "env \<Rightarrow> string \<Rightarrow> table \<Rightarrow> bool" where
  "postOk e t tbl =
     (netOk e \<and> dbOk e \<and> trim t \<noteq> [] \<and> toString (now e) \<notin> set (map row_id tbl))"

definition rowOk :: "env \<Rightarrow> string \<Rightarrow> table \<Rightarrow> bool" where
  "rowOk e i tbl = (netOk e \<and> dbOk e \<and> i \<in> set (map row_id tbl))"

text \<open>The title that \<open>PUT\<close> assigns, if any.\<close>

definition assigned_title :: "body \<Rightarrow> string option" where
  "assigned_title b =
     (case b_title b of None \<Rightarrow> None | Some t \<Rightarrow> if trim t \<noteq> [] then Some (trim t) else None)"

text \<open>
  Invariants of a session: every title in memory, in the pending-undo record, in the table
  and in local storage is valid; a pending-undo record carries a position inside the array.
\<close>

definition titles_ok :: "app \<Rightarrow> bool" where
  "titles_ok a =
     ((\<forall>t \<in> set (tasks a). validTitle (title t)) \<and>
      (case deletedTask a of None \<Rightarrow> True | Some d \<Rightarrow> validTitle (title d)))"


definition undo_ok :: "app \<Rightarrow> bool" where
  "undo_ok a =
     (case deletedTask a of
        None \<Rightarrow> True
      | Some d \<Rightarrow> 0 \<le> deletedTaskIndex a \<and> deletedTaskIndex a \<le> int (length (tasks a)))"




text \<open>
  Ids in the API variant: no id twice in memory, none twice in the table, and every task in
  memory has its row.
\<close>

definition task_ids :: "task list \<Rightarrow> string list" where
  "task_ids ts = map id_task ts"

definition row_ids :: "table \<Rightarrow> string list" where
  "row_ids tbl = map row_id tbl"

definition uniq_api :: "app \<times> table \<Rightarrow> bool" where
  "uniq_api s =
     (distinct (task_ids (tasks (fst s))) \<and> distinct (row_ids (snd s)) \<and>
      set (task_ids (tasks (fst s))) \<subseteq> set (row_ids (snd s)))"

text \<open>Every id is the decimal rendering of one of the given clock readings.\<close>

definition ids_in :: "nat list \<Rightarrow> app \<times> table \<Rightarrow> bool" where
  "ids_in ns s =
     (set (task_ids (tasks (fst s))) \<subseteq> set (map toString ns) \<and>
      (case deletedTask (fst s) of None \<Rightarrow> True | Some d \<Rightarrow> id_task d \<in> set (map toString ns)) \<and>
      set (row_ids (snd s)) \<subseteq> set (map toString ns))"



section \<open>Sample data\<close>

definition env0 :: "nat \<Rightarrow> env" where
  "env0 t = \<lparr>now = t, time = t, netOk = True, dbOk = True\<rparr>"

definition benv0 :: "nat \<Rightarrow> benv" where
  "benv0 t = \<lparr>clock = t, at = t, storageOk = True\<rparr>"

definition milk :: task where
  "milk = \<lparr>id_task = ''1000'', title = ''Buy milk'', isDone = False, createdAt = 1000\<rparr>"

definition milk_row :: row where
  "milk_row = \<lparr>row_id = ''1000'', row_title = ''Buy milk'', is_done = False,
     created_at = 1000, updated_at = 1000\<rparr>"

definition tea :: task where
  "tea = \<lparr>id_task = ''2000'', title = ''Make tea'', isDone = False, createdAt = 2000\<rparr>"


section \<open>Trimming, searching and splicing\<close>

lemma trim_Nil [simp]: "trim [] = []"
  by (simp add: trim_def)

lemma dropWhile_rev_dropWhile:
  "dropWhile P (rev (dropWhile P (rev (dropWhile P s)))) = rev (dropWhile P (rev (dropWhile P s)))"
proof (cases "dropWhile P (rev (dropWhile P s)) = []")
  case True
  show ?thesis unfolding True by simp
next
  case False
  define t where "t = dropWhile P s"
  define u where "u = dropWhile P (rev t)"
  have une: "u \<noteq> []" using False by (simp add: u_def t_def)
  then have tne: "t \<noteq> []" by (auto simp: u_def)
  have "\<not> P (hd t)" using tne unfolding t_def by (simp add: hd_dropWhile)
  moreover have "last u = hd t"
  proof -
    obtain ys where "rev t = ys @ u"
      unfolding u_def by (metis takeWhile_dropWhile_id)
    then have "last (rev t) = last u" using une by simp
    then show ?thesis using tne by (simp add: last_rev)
  qed
  ultimately have "\<not> P (hd (rev u))" using une by (simp add: hd_rev)
  then have "dropWhile P (rev u) = rev u" using une by (cases "rev u") auto
  then show ?thesis by (simp add: u_def t_def)
qed

lemma trim_idem [simp]: "trim (trim s) = trim s"
proof -
  have "dropWhile isSpace (rev (dropWhile isSpace (rev (dropWhile isSpace s)))) =
        rev (dropWhile isSpace (rev (dropWhile isSpace s)))"
    by (rule dropWhile_rev_dropWhile)
  then show ?thesis by (simp add: trim_def)
qed


lemma find_None_findIndex: "List.find P xs = None \<Longrightarrow> findIndex P xs = - 1"
  by (simp add: findIndex_def)

lemma findIndex_found:
  assumes "List.find P xs = Some x"
  shows "findIndex P xs = int (length (takeWhile (\<lambda>y. \<not> P y) xs))"
    and "length (takeWhile (\<lambda>y. \<not> P y) xs) < length xs"
    and "xs ! length (takeWhile (\<lambda>y. \<not> P y) xs) = x"
    and "P x"
proof -
  show "findIndex P xs = int (length (takeWhile (\<lambda>y. \<not> P y) xs))"
    using assms by (simp add: findIndex_def)
  show "length (takeWhile (\<lambda>y. \<not> P y) xs) < length xs"
    using assms by (induction xs) (auto split: if_splits)
  show "xs ! length (takeWhile (\<lambda>y. \<not> P y) xs) = x"
    using assms by (induction xs) (auto split: if_splits)
  show "P x"
    using assms by (induction xs) (auto split: if_splits)
qed

lemma findIndex_neg: "findIndex P xs = - 1 \<longleftrightarrow> List.find P xs = None"
  by (auto simp: findIndex_def split: option.splits)

lemma splice_remove: "k < length xs \<Longrightarrow> splice_js (int k) (Suc 0) [] xs = take k xs @ drop (Suc k) xs"
  by (simp add: splice_js_def min_def)

lemma splice_insert: "k \<le> length xs \<Longrightarrow> splice_js (int k) 0 [x] xs = take k xs @ x # drop k xs"
  by (simp add: splice_js_def min_def)

lemma splice_rollback:
  "k < length xs \<Longrightarrow> splice_js (int k) 0 [xs ! k] (splice_js (int k) (Suc 0) [] xs) = xs"
  by (simp add: splice_remove splice_insert min_def id_take_nth_drop [symmetric])


section \<open>What a call to the API returns\<close>

lemma filter_unknown_id: "i \<notin> set (map row_id tbl) \<Longrightarrow> filter (\<lambda>r. row_id r = i) tbl = []"
  by (auto simp: filter_empty_conv)

lemma filter_other_ids: "i \<notin> set (map row_id tbl) \<Longrightarrow> filter (\<lambda>r. row_id r \<noteq> i) tbl = tbl"
  by (auto simp: filter_id_conv)

lemma update_unknown_id:
  "i \<notin> set (map row_id tbl) \<Longrightarrow> map (\<lambda>r. if row_id r = i then f r else r) tbl = tbl"
  by (induction tbl) auto

lemma returning_new_row: "returning (new_row e t) = create (now e) t"
  by (simp add: returning_def new_row_def create_def)

lemma trim_Nil_iff: "t = [] \<or> trim t = [] \<longleftrightarrow> trim t = []"
  by auto

lemma apiCall_POST_ok:
  assumes "postOk e t tbl"
  shows "apiCall e (POST_tasks \<lparr>b_title = Some t, b_isDone = None\<rparr>) (a, tbl) =
     (Inr \<lparr>status = 201, success = True, data = One (create (now e) t), error = None,
           message = None\<rparr>, a, tbl @ [new_row e t])"
proof -
  have "t \<noteq> []" using assms by (auto simp: postOk_def)
  then show ?thesis
    using assms
    by (simp add: postOk_def apiCall_def post_tasks_def query_def sql_insert_def
        returning_new_row [symmetric] new_row_def)
qed

lemma apiCall_POST_fail:
  assumes "\<not> postOk e t tbl"
  shows "apiCall e (POST_tasks \<lparr>b_title = Some t, b_isDone = None\<rparr>) (a, tbl) =
     (let msg = (if \<not> netOk e then networkError
                 else if trim t = [] then ''Title is required''
                 else ''Failed to create task'')
      in (Inl msg, showSnackbar (time e) (''Error: '' @ msg) a, tbl))"
  using assms
  by (auto simp add: postOk_def apiCall_def post_tasks_def query_def sql_insert_def failure_def
      Let_def)

lemma apiCall_PUT_ok:
  assumes "rowOk e i tbl"
  shows "apiCall e (PUT_tasks i b) (a, tbl) =
     (Inr \<lparr>status = 200, success = True,
           data = One (returning (update_row (now e) (assigned_title b) (b_isDone b)
                     (hd (filter (\<lambda>r. row_id r = i) tbl)))),
           error = None, message = None\<rparr>, a,
      map (\<lambda>r. if row_id r = i then update_row (now e) (assigned_title b) (b_isDone b) r else r)
        tbl)"
proof -
  have ne: "filter (\<lambda>r. row_id r = i) tbl \<noteq> []"
    using assms by (auto simp: rowOk_def filter_empty_conv)
  show ?thesis
    using assms ne
    by (simp add: rowOk_def apiCall_def put_task_def query_def sql_update_def
        assigned_title_def hd_map Let_def)
qed

lemma apiCall_PUT_fail:
  assumes "\<not> rowOk e i tbl"
  shows "apiCall e (PUT_tasks i b) (a, tbl) =
     (let msg = (if \<not> netOk e then networkError
                 else if \<not> dbOk e then ''Failed to update task''
                 else ''Task not found'')
      in (Inl msg, showSnackbar (time e) (''Error: '' @ msg) a, tbl))"
proof (cases "netOk e \<and> dbOk e")
  case True
  then have "i \<notin> set (map row_id tbl)" using assms by (simp add: rowOk_def)
  then have f: "filter (\<lambda>r. row_id r = i) tbl = []"
    and m: "\<And>f. map (\<lambda>r. if row_id r = i then f r else r) tbl = tbl"
    by (simp_all add: filter_unknown_id update_unknown_id)
  show ?thesis using True
    by (simp add: apiCall_def put_task_def query_def sql_update_def f m failure_def)
next
  case False
  then show ?thesis
    by (auto simp add: apiCall_def put_task_def query_def failure_def Let_def)
qed

lemma apiCall_DELETE_ok:
  assumes "rowOk e i tbl"
  shows "apiCall e (DELETE_tasks i) (a, tbl) =
     (Inr \<lparr>status = 200, success = True,
           data = One (returning (hd (filter (\<lambda>r. row_id r = i) tbl))),
           error = None, message = Some ''Task deleted successfully''\<rparr>, a,
      filter (\<lambda>r. row_id r \<noteq> i) tbl)"
proof -
  have ne: "filter (\<lambda>r. row_id r = i) tbl \<noteq> []"
    using assms by (auto simp: rowOk_def filter_empty_conv)
  show ?thesis
    using assms ne
    by (simp add: rowOk_def apiCall_def delete_task_def query_def sql_delete_def hd_map)
qed

lemma apiCall_DELETE_fail:
  assumes "\<not> rowOk e i tbl"
  shows "apiCall e (DELETE_tasks i) (a, tbl) =
     (let msg = (if \<not> netOk e then networkError
                 else if \<not> dbOk e then ''Failed to delete task''
                 else ''Task not found'')
      in (Inl msg, showSnackbar (time e) (''Error: '' @ msg) a, tbl))"
proof (cases "netOk e \<and> dbOk e")
  case True
  then have "i \<notin> set (map row_id tbl)" using assms by (simp add: rowOk_def)
  then have f: "filter (\<lambda>r. row_id r = i) tbl = []"
    and g: "filter (\<lambda>r. row_id r \<noteq> i) tbl = tbl"
    by (auto simp: filter_empty_conv filter_id_conv)
  show ?thesis using True
    by (simp add: apiCall_def delete_task_def query_def sql_delete_def f g failure_def)
next
  case False
  then show ?thesis
    by (auto simp add: apiCall_def delete_task_def query_def failure_def Let_def)
qed

lemma apiCall_GET:
  "apiCall e GET_tasks (a, tbl) =
     (if netOk e \<and> dbOk e
      then (Inr \<lparr>status = 200, success = True,
                 data = Many (map returning (rev (sort_key created_at tbl))), error = None,
                 message = None\<rparr>, a, tbl)
      else (let msg = (if \<not> netOk e then networkError else ''Failed to fetch tasks'')
            in (Inl msg, showSnackbar (time e) (''Error: '' @ msg) a, tbl)))"
  by (auto simp add: apiCall_def get_tasks_def query_def sql_select_all_def failure_def Let_def)


section \<open>The operations of the API client, case by case\<close>

lemma addTask_api_ok:
  assumes "postOk e t tbl"
  shows "addTask_api e t (a, tbl) =
     (showSnackbar (time e) ''Task added successfully''
        (a\<lparr>tasks := create (now e) t # tasks a,
           deletedAlias := map_option Suc (deletedAlias a)\<rparr>), tbl @ [new_row e t])"
  by (simp add: addTask_api_def apiCall_POST_ok [OF assms])

lemma addTask_api_fail:
  assumes "\<not> postOk e t tbl"
  shows "addTask_api e t (a, tbl) =
     (showSnackbar (time e)
        (''Error: '' @ (if \<not> netOk e then networkError
                        else if trim t = [] then ''Title is required''
                        else ''Failed to create task'')) a, tbl)"
  by (simp add: addTask_api_def apiCall_POST_fail [OF assms] Let_def)

lemma undoDelete_api_none: "deletedTask (fst s) = None \<Longrightarrow> undoDelete_api e s = s"
  by (simp add: undoDelete_api_def)

lemma undoDelete_api_ok:
  assumes "deletedTask a = Some d" and "postOk e (title d) tbl"
  shows "undoDelete_api e (a, tbl) =
     (showSnackbar (time e) ''Task restored''
        ((hideSnackbar
            (a\<lparr>tasks := splice_js (deletedTaskIndex a) 0 [create (now e) (title d)] (tasks a)\<rparr>))
           \<lparr>deletedTask := None, deletedTaskIndex := - 1, deletedAlias := None\<rparr>),
      tbl @ [new_row e (title d)])"
  by (simp add: undoDelete_api_def assms(1) apiCall_POST_ok [OF assms(2)])

lemma undoDelete_api_fail:
  assumes "deletedTask a = Some d" and "\<not> postOk e (title d) tbl"
  shows "undoDelete_api e (a, tbl) =
     (showSnackbar (time e)
        (''Error: '' @ (if \<not> netOk e then networkError
                        else if trim (title d) = [] then ''Title is required''
                        else ''Failed to create task'')) a, tbl)"
  by (simp add: undoDelete_api_def assms(1) apiCall_POST_fail [OF assms(2)] Let_def)

lemma toggleTask_api_absent:
  "List.find (\<lambda>t. id_task t = i) (tasks (fst s)) = None \<Longrightarrow> toggleTask_api e i s = s"
  by (simp add: toggleTask_api_def)

lemma toggleTask_api_ok:
  assumes "List.find (\<lambda>t. id_task t = i) (tasks a) = Some x" and "rowOk e i tbl"
  shows "toggleTask_api e i (a, tbl) =
     (mutate i (\<lambda>t. t\<lparr>isDone := \<not> isDone x\<rparr>) a,
      map (\<lambda>r. if row_id r = i then update_row (now e) None (Some (\<not> isDone x)) r else r) tbl)"
  by (simp add: toggleTask_api_def assms(1) apiCall_PUT_ok [OF assms(2)] assigned_title_def
      returning_def update_row_def)

lemma toggleTask_api_fail:
  assumes "List.find (\<lambda>t. id_task t = i) (tasks a) = Some x" and "\<not> rowOk e i tbl"
  shows "toggleTask_api e i (a, tbl) =
     (showSnackbar (time e)
        (''Error: '' @ (if \<not> netOk e then networkError
                        else if \<not> dbOk e then ''Failed to update task''
                        else ''Task not found'')) a, tbl)"
  by (simp add: toggleTask_api_def assms(1) apiCall_PUT_fail [OF assms(2)] Let_def)

lemma editTask_api_blank: "trim newTitle = [] \<Longrightarrow> editTask_api e i newTitle s = s"
  by (simp add: editTask_api_def)

lemma editTask_api_ok:
  assumes "trim newTitle \<noteq> []" and "rowOk e i tbl"
  shows "editTask_api e i newTitle (a, tbl) =
     ((case List.find (\<lambda>t. id_task t = i) (tasks a) of
         None \<Rightarrow> a
       | Some _ \<Rightarrow> showSnackbar (time e) ''Task updated successfully''
                    (mutate i (\<lambda>t. t\<lparr>title := trim newTitle\<rparr>) a)),
      map (\<lambda>r. if row_id r = i then update_row (now e) (Some (trim newTitle)) None r else r) tbl)"
  using assms(1)
  by (simp add: editTask_api_def apiCall_PUT_ok [OF assms(2)] assigned_title_def
      returning_def update_row_def split: option.splits)

lemma editTask_api_fail:
  assumes "trim newTitle \<noteq> []" and "\<not> rowOk e i tbl"
  shows "editTask_api e i newTitle (a, tbl) =
     (showSnackbar (time e)
        (''Error: '' @ (if \<not> netOk e then networkError
                        else if \<not> dbOk e then ''Failed to update task''
                        else ''Task not found'')) a, tbl)"
  using assms(1)
  by (simp add: editTask_api_def apiCall_PUT_fail [OF assms(2)] Let_def)

lemma deleteTask_api_absent:
  "List.find (\<lambda>t. id_task t = i) (tasks (fst s)) = None \<Longrightarrow> deleteTask_api e i s = s"
  by (cases s) (simp add: deleteTask_api_def find_None_findIndex)

lemma deleteTask_api_ok:
  assumes "List.find (\<lambda>t. id_task t = i) (tasks a) = Some x" and "rowOk e i tbl"
  shows "deleteTask_api e i (a, tbl) =
     (let k = length (takeWhile (\<lambda>t. id_task t \<noteq> i) (tasks a))
      in (a\<lparr>tasks := take k (tasks a) @ drop (Suc k) (tasks a), deletedTask := Some x,
            deletedTaskIndex := int k, deletedAlias := None,
            snackbarMessage := ''Deleted '' @ [CHR 0x22] @ title x @ [CHR 0x22],
            snackbarActive := True, snackbarTimeout := Some (time e + 4000),
            undoTimers := undoTimers a @ [time e + 5000]\<rparr>,
          filter (\<lambda>r. row_id r \<noteq> i) tbl))"
proof -
  note fi = findIndex_found [OF assms(1)]
  show ?thesis
    by (simp add: deleteTask_api_def fi(1,2,3) apiCall_DELETE_ok [OF assms(2)] Let_def
        splice_remove showSnackbar_def)
qed

lemma deleteTask_api_fail:
  assumes "List.find (\<lambda>t. id_task t = i) (tasks a) = Some x" and "\<not> rowOk e i tbl"
  shows "deleteTask_api e i (a, tbl) =
     (a\<lparr>deletedTask := Some x,
        deletedTaskIndex := int (length (takeWhile (\<lambda>t. id_task t \<noteq> i) (tasks a))),
        deletedAlias := Some (length (takeWhile (\<lambda>t. id_task t \<noteq> i) (tasks a))),
        snackbarMessage := ''Error: '' @ (if \<not> netOk e then networkError
                        else if \<not> dbOk e then ''Failed to delete task''
                        else ''Task not found''),
        snackbarActive := True, snackbarTimeout := Some (time e + 4000)\<rparr>, tbl)"
proof -
  note fi = findIndex_found [OF assms(1)]
  have rb: "splice_js (int k) 0 [x] (splice_js (int k) (Suc 0) [] (tasks a)) = tasks a"
    if "k = length (takeWhile (\<lambda>t. id_task t \<noteq> i) (tasks a))" for k
    using splice_rollback [OF fi(2)] fi(3) that by simp
  show ?thesis
    by (simp add: deleteTask_api_def fi(1,2,3) apiCall_DELETE_fail [OF assms(2)] Let_def
        showSnackbar_def rb)
qed

lemma loadTasks_api_eq:
  "loadTasks_api e (a, tbl) =
     (if netOk e \<and> dbOk e
      then (a\<lparr>tasks := map returning (rev (sort_key created_at tbl)), deletedAlias := None\<rparr>, tbl)
      else ((showSnackbar (time e)
               (''Error: '' @ (if \<not> netOk e then networkError else ''Failed to fetch tasks'')) a)
              \<lparr>tasks := [], deletedAlias := None\<rparr>, tbl))"
  by (simp add: loadTasks_api_def apiCall_GET Let_def)


section \<open>Frame lemmas\<close>

lemma showSnackbar_frame [simp]:
  "tasks (showSnackbar t m a) = tasks a"
  "deletedTask (showSnackbar t m a) = deletedTask a"
  "deletedTaskIndex (showSnackbar t m a) = deletedTaskIndex a"
  "deletedAlias (showSnackbar t m a) = deletedAlias a"
  "undoTimers (showSnackbar t m a) = undoTimers a"
  by (simp_all add: showSnackbar_def)

lemma hideSnackbar_frame [simp]:
  "tasks (hideSnackbar a) = tasks a"
  "deletedTask (hideSnackbar a) = deletedTask a"
  "deletedTaskIndex (hideSnackbar a) = deletedTaskIndex a"
  "deletedAlias (hideSnackbar a) = deletedAlias a"
  "undoTimers (hideSnackbar a) = undoTimers a"
  by (simp_all add: hideSnackbar_def)

lemma runTimers_tasks [simp]: "tasks (runTimers t a) = tasks a"
  by (simp add: runTimers_def Let_def split: option.splits)


lemma mutate_frame [simp]:
  "tasks (mutate i f a) =
     (tasks a)[length (takeWhile (\<lambda>t. id_task t \<noteq> i) (tasks a)) :=
        f (tasks a ! length (takeWhile (\<lambda>t. id_task t \<noteq> i) (tasks a)))]"
  "deletedTaskIndex (mutate i f a) = deletedTaskIndex a"
  "deletedAlias (mutate i f a) = deletedAlias a"
  "undoTimers (mutate i f a) = undoTimers a"
  "snackbarMessage (mutate i f a) = snackbarMessage a"
  "snackbarActive (mutate i f a) = snackbarActive a"
  "snackbarTimeout (mutate i f a) = snackbarTimeout a"
  by (simp_all add: mutate_def Let_def)


section \<open>Titles stay valid: the building blocks\<close>



lemma titles_ok_showSnackbar [simp]: "titles_ok (showSnackbar t m a) = titles_ok a"
  by (simp add: titles_ok_def)

lemma undo_ok_showSnackbar [simp]: "undo_ok (showSnackbar t m a) = undo_ok a"
  by (simp add: undo_ok_def split: option.splits)






lemma set_splice_insert: "set (splice_js k 0 [x] xs) = insert x (set xs)"
proof -
  have "set (take n xs) \<union> set (drop n xs) = set xs" for n
    by (metis append_take_drop_id set_append)
  then show ?thesis by (auto simp add: splice_js_def Let_def)
qed

lemma length_splice_insert [simp]: "length (splice_js k 0 [x] xs) = Suc (length xs)"
  by (simp add: splice_js_def Let_def)


section \<open>Titles stay valid: the API client\<close>













section \<open>Titles stay valid: the client on local storage\<close>

lemma saveTasks_eq: "saveTasks be (a, st) = (a, if storageOk be then Some (tasks a) else st)"
  by (simp add: saveTasks_def)


lemma addTask_local_eq:
  "addTask_local be v (a, st) =
     (if trim v = [] then (a, st)
      else saveTasks be
             (a\<lparr>tasks := create (clock be) v # tasks a,
                deletedAlias := map_option Suc (deletedAlias a)\<rparr>, st))"
  by (simp add: addTask_local_def Let_def create_def)

lemma deleteTask_local_absent:
  "List.find (\<lambda>t. id_task t = i) (tasks (fst s)) = None \<Longrightarrow> deleteTask_local be i s = s"
  by (cases s) (simp add: deleteTask_local_def find_None_findIndex)

lemma deleteTask_local_found:
  assumes "List.find (\<lambda>t. id_task t = i) (tasks a) = Some x"
  shows "deleteTask_local be i (a, st) =
     (let k = length (takeWhile (\<lambda>t. id_task t \<noteq> i) (tasks a));
          ts = take k (tasks a) @ drop (Suc k) (tasks a)
      in (a\<lparr>tasks := ts, deletedTask := Some x, deletedTaskIndex := int k, deletedAlias := None,
            snackbarMessage := ''Deleted '' @ [CHR 0x22] @ title x @ [CHR 0x22],
            snackbarActive := True, snackbarTimeout := Some (at be + 4000)\<rparr>,
          if storageOk be then Some ts else st))"
proof -
  note fi = findIndex_found [OF assms]
  show ?thesis
    by (simp add: deleteTask_local_def fi(1,2,3) saveTasks_eq Let_def splice_remove
        showSnackbar_def)
qed

lemma undoDelete_local_eq:
  "undoDelete_local be (a, st) =
     (case deletedTask a of
        None \<Rightarrow> (a, st)
      | Some d \<Rightarrow>
          if deletedTaskIndex a \<noteq> - 1 then
            (a\<lparr>tasks := splice_js (deletedTaskIndex a) 0 [d] (tasks a), deletedTask := None,
               deletedTaskIndex := - 1, deletedAlias := None, snackbarActive := False,
               snackbarTimeout := None\<rparr>,
             if storageOk be then Some (splice_js (deletedTaskIndex a) 0 [d] (tasks a)) else st)
          else (a, st))"
  by (simp add: undoDelete_local_def saveTasks_eq hideSnackbar_def split: option.splits)












section \<open>Ids stay unique in the API variant\<close>

lemma map_update_same:
  assumes "\<And>x. g (f x) = g x"
  shows "map g (xs[k := f (xs ! k)]) = map g xs"
proof (cases "k < length xs")
  case True
  then show ?thesis by (simp add: map_update assms list_update_same_conv)
next
  case False
  then show ?thesis by (simp add: list_update_beyond)
qed

lemma ids_mutate:
  assumes "\<And>x. id_task (f x) = id_task x"
  shows "task_ids (tasks (mutate i f a)) = task_ids (tasks a)"
  unfolding task_ids_def mutate_frame by (rule map_update_same) (rule assms)

lemma row_ids_update:
  "row_ids (map (\<lambda>r. if row_id r = i then update_row t st sd r else r) tbl) = row_ids tbl"
  by (induction tbl) (simp_all add: update_row_def row_ids_def)

lemma row_ids_insert: "row_ids (tbl @ [new_row e t]) = row_ids tbl @ [toString (now e)]"
  by (simp add: row_ids_def new_row_def)

lemma row_ids_delete: "row_ids (filter (\<lambda>r. row_id r \<noteq> i) tbl) = filter (\<lambda>j. j \<noteq> i) (row_ids tbl)"
  by (simp add: row_ids_def filter_map comp_def)

lemma task_ids_Cons: "task_ids (create n t # ts) = toString n # task_ids ts"
  by (simp add: task_ids_def create_def)

lemma task_ids_Nil: "task_ids [] = []"
  by (simp add: task_ids_def)

lemma task_ids_returning: "task_ids (map returning ys) = row_ids ys"
  by (simp add: task_ids_def row_ids_def returning_def)

lemma distinct_insert_at:
  assumes "distinct (map g xs)" and "g x \<notin> set (map g xs)"
  shows "distinct (map g (take n xs @ x # drop n xs))"
proof -
  have d: "distinct (map g (take n xs) @ map g (drop n xs))"
    by (metis assms(1) append_take_drop_id map_append)
  have "g x \<notin> set (map g (take n xs))" and "g x \<notin> set (map g (drop n xs))"
    using assms(2) set_take_subset [of n xs] set_drop_subset [of n xs] by auto
  then show ?thesis using d by auto
qed

lemma distinct_splice_insert:
  assumes "distinct (task_ids xs)" and "id_task x \<notin> set (task_ids xs)"
  shows "distinct (task_ids (splice_js k 0 [x] xs))"
  using assms distinct_insert_at [of id_task xs x]
  by (simp add: splice_js_def Let_def task_ids_def)

lemma set_ids_splice_insert:
  "set (task_ids (splice_js k 0 [x] xs)) = insert (id_task x) (set (task_ids xs))"
  by (simp add: task_ids_def set_splice_insert)

lemma distinct_remove_nth:
  assumes "distinct (map g xs)" and "k < length xs"
  shows "distinct (map g (take k xs @ drop (Suc k) xs))"
    and "g (xs ! k) \<notin> set (map g (take k xs @ drop (Suc k) xs))"
proof -
  have xs: "xs = take k xs @ xs ! k # drop (Suc k) xs"
    using assms(2) by (rule id_take_nth_drop)
  have "distinct (map g (take k xs) @ g (xs ! k) # map g (drop (Suc k) xs))"
    by (metis assms(1) xs map_append list.simps(9))
  then show "distinct (map g (take k xs @ drop (Suc k) xs))"
    and "g (xs ! k) \<notin> set (map g (take k xs @ drop (Suc k) xs))"
    by auto
qed

lemma ids_remove_nth_subset:
  "set (task_ids (take k xs @ drop (Suc k) xs)) \<subseteq> set (task_ids xs)"
  using set_take_subset [of k xs] set_drop_subset [of "Suc k" xs]
  by (auto simp: task_ids_def)

lemma uniq_api_addTask:
  assumes "uniq_api s"
  shows "uniq_api (addTask_api e t s)"
proof (cases s)
  case (Pair a tbl)
  show ?thesis
  proof (cases "postOk e t tbl")
    case True
    then have "toString (now e) \<notin> set (row_ids tbl)" by (simp add: postOk_def row_ids_def)
    then show ?thesis
      using assms
      by (auto simp: Pair addTask_api_ok [OF True] uniq_api_def task_ids_Cons row_ids_insert)
  next
    case False
    show ?thesis
      using assms by (simp add: Pair addTask_api_fail [OF False] uniq_api_def)
  qed
qed

lemma uniq_api_toggleTask:
  assumes "uniq_api s"
  shows "uniq_api (toggleTask_api e i s)"
proof (cases s)
  case (Pair a tbl)
  show ?thesis
  proof (cases "List.find (\<lambda>t. id_task t = i) (tasks a)")
    case None
    then show ?thesis using assms by (simp add: Pair toggleTask_api_absent)
  next
    case (Some x)
    show ?thesis
    proof (cases "rowOk e i tbl")
      case True
      show ?thesis
        using assms
        by (simp add: Pair toggleTask_api_ok [OF Some True] uniq_api_def ids_mutate
            row_ids_update del: mutate_frame)
    next
      case False
      show ?thesis
        using assms by (simp add: Pair toggleTask_api_fail [OF Some False] uniq_api_def)
    qed
  qed
qed

lemma uniq_api_editTask:
  assumes "uniq_api s"
  shows "uniq_api (editTask_api e i newTitle s)"
proof (cases s)
  case (Pair a tbl)
  show ?thesis
  proof (cases "trim newTitle = []")
    case True
    then show ?thesis using assms by (simp add: editTask_api_blank)
  next
    case ne: False
    show ?thesis
    proof (cases "rowOk e i tbl")
      case True
      show ?thesis
        using assms
        by (simp add: Pair editTask_api_ok [OF ne True] uniq_api_def ids_mutate
            row_ids_update del: mutate_frame split: option.splits)
    next
      case False
      show ?thesis
        using assms by (simp add: Pair editTask_api_fail [OF ne False] uniq_api_def)
    qed
  qed
qed

lemma uniq_api_deleteTask:
  assumes "uniq_api s"
  shows "uniq_api (deleteTask_api e i s)"
proof (cases s)
  case (Pair a tbl)
  show ?thesis
  proof (cases "List.find (\<lambda>t. id_task t = i) (tasks a)")
    case None
    then show ?thesis using assms by (simp add: Pair deleteTask_api_absent)
  next
    case (Some x)
    note fi = findIndex_found [OF Some]
    define k where "k = length (takeWhile (\<lambda>t. id_task t \<noteq> i) (tasks a))"
    define rest where "rest = take k (tasks a) @ drop (Suc k) (tasks a)"
    show ?thesis
    proof (cases "rowOk e i tbl")
      case True
      have d: "distinct (map id_task (tasks a))"
        using assms by (simp add: Pair uniq_api_def task_ids_def)
      have k: "k < length (tasks a)" using fi(2) by (simp add: k_def)
      have xi: "id_task (tasks a ! k) = i" using fi(3,4) by (simp add: k_def)
      have rm1: "distinct (task_ids rest)"
        using distinct_remove_nth(1) [OF d k] by (simp add: rest_def task_ids_def)
      have rm2: "i \<notin> set (task_ids rest)"
        using distinct_remove_nth(2) [OF d k] xi by (simp add: rest_def task_ids_def)
      have "set (task_ids rest) \<subseteq> set (task_ids (tasks a))"
        unfolding rest_def by (rule ids_remove_nth_subset)
      then have "set (task_ids rest) \<subseteq> set (row_ids tbl)"
        using assms by (auto simp: Pair uniq_api_def)
      then have sub: "set (task_ids rest) \<subseteq> set (filter (\<lambda>j. j \<noteq> i) (row_ids tbl))"
        using rm2 by auto
      have dr: "distinct (filter (\<lambda>j. j \<noteq> i) (row_ids tbl))"
        using assms by (simp add: Pair uniq_api_def)
      have "deleteTask_api e i (a, tbl) =
          (a\<lparr>tasks := rest, deletedTask := Some x,
            deletedTaskIndex := int k, deletedAlias := None,
            snackbarMessage := ''Deleted '' @ [CHR 0x22] @ title x @ [CHR 0x22],
            snackbarActive := True, snackbarTimeout := Some (time e + 4000),
            undoTimers := undoTimers a @ [time e + 5000]\<rparr>,
          filter (\<lambda>r. row_id r \<noteq> i) tbl)"
        by (simp add: deleteTask_api_ok [OF Some True] Let_def k_def rest_def)
      then show ?thesis
        using rm1 sub dr by (simp add: Pair uniq_api_def row_ids_delete)
    next
      case False
      show ?thesis
        using assms by (simp add: Pair deleteTask_api_fail [OF Some False] uniq_api_def)
    qed
  qed
qed

lemma uniq_api_undoDelete:
  assumes "uniq_api s"
  shows "uniq_api (undoDelete_api e s)"
proof (cases s)
  case (Pair a tbl)
  show ?thesis
  proof (cases "deletedTask a")
    case None
    then show ?thesis using assms by (simp add: Pair undoDelete_api_none)
  next
    case (Some d)
    show ?thesis
    proof (cases "postOk e (title d) tbl")
      case True
      then have fresh: "toString (now e) \<notin> set (row_ids tbl)"
        by (simp add: postOk_def row_ids_def)
      then have "id_task (create (now e) (title d)) \<notin> set (task_ids (tasks a))"
        using assms by (auto simp: Pair uniq_api_def create_def)
      then have "distinct (task_ids
          (splice_js (deletedTaskIndex a) 0 [create (now e) (title d)] (tasks a)))"
        using assms by (intro distinct_splice_insert) (simp_all add: Pair uniq_api_def)
      then show ?thesis
        using assms fresh
        by (auto simp: Pair undoDelete_api_ok [OF Some True] uniq_api_def set_ids_splice_insert
            row_ids_insert create_def)
    next
      case False
      show ?thesis
        using assms by (simp add: Pair undoDelete_api_fail [OF Some False] uniq_api_def)
    qed
  qed
qed

lemma uniq_api_reload:
  assumes "distinct (row_ids tbl)"
  shows "uniq_api (loadTasks_api e (new_app, tbl))"
proof -
  have "mset (row_ids (rev (sort_key created_at tbl))) = mset (row_ids tbl)"
    by (simp add: row_ids_def)
  then have d: "distinct (row_ids (rev (sort_key created_at tbl)))"
    using assms mset_eq_imp_distinct_iff by blast
  have s: "set (row_ids (rev (sort_key created_at tbl))) = set (row_ids tbl)"
    by (simp add: row_ids_def)
  show ?thesis
    using assms d s
    by (simp add: loadTasks_api_eq uniq_api_def task_ids_returning new_app_def task_ids_Nil)
qed

lemma uniq_api_perform: "uniq_api s \<Longrightarrow> uniq_api (perform_api e opn s)"
proof (cases opn)
  case Reload
  assume "uniq_api s"
  then show ?thesis using uniq_api_reload [of "snd s" e] by (simp add: Reload uniq_api_def)
qed (simp_all add: uniq_api_addTask uniq_api_toggleTask uniq_api_editTask uniq_api_deleteTask
    uniq_api_undoDelete)

lemma uniq_api_step: "uniq_api s \<Longrightarrow> uniq_api (step_api e opn s)"
  unfolding step_api_def
  by (rule uniq_api_perform) (simp add: uniq_api_def)

lemma uniq_api_run: "uniq_api s \<Longrightarrow> uniq_api (run_api tr s)"
  by (induction tr arbitrary: s) (simp_all add: uniq_api_step)

lemma uniq_api_init: "uniq_api (new_app, [])"
  by (simp add: uniq_api_def new_app_def task_ids_def row_ids_def)


section \<open>The operations as equations\<close>

lemma addTask_api_eq:
  "addTask_api e t (a, tbl) =
     (if postOk e t tbl
      then (showSnackbar (time e) ''Task added successfully''
              (a\<lparr>tasks := create (now e) t # tasks a,
                 deletedAlias := map_option Suc (deletedAlias a)\<rparr>), tbl @ [new_row e t])
      else (showSnackbar (time e)
              (''Error: '' @ (if \<not> netOk e then networkError
                              else if trim t = [] then ''Title is required''
                              else ''Failed to create task'')) a, tbl))"
  by (simp add: addTask_api_ok addTask_api_fail)

lemma undoDelete_api_eq:
  "undoDelete_api e (a, tbl) =
     (case deletedTask a of
        None \<Rightarrow> (a, tbl)
      | Some d \<Rightarrow>
          if postOk e (title d) tbl
          then (showSnackbar (time e) ''Task restored''
                  ((hideSnackbar
                      (a\<lparr>tasks := splice_js (deletedTaskIndex a) 0 [create (now e) (title d)]
                                    (tasks a)\<rparr>))
                     \<lparr>deletedTask := None, deletedTaskIndex := - 1, deletedAlias := None\<rparr>),
                tbl @ [new_row e (title d)])
          else (showSnackbar (time e)
                  (''Error: '' @ (if \<not> netOk e then networkError
                                  else if trim (title d) = [] then ''Title is required''
                                  else ''Failed to create task'')) a, tbl))"
  by (simp add: undoDelete_api_none undoDelete_api_ok undoDelete_api_fail split: option.splits)

lemma toggleTask_api_eq:
  "toggleTask_api e i (a, tbl) =
     (case List.find (\<lambda>t. id_task t = i) (tasks a) of
        None \<Rightarrow> (a, tbl)
      | Some x \<Rightarrow>
          if rowOk e i tbl
          then (mutate i (\<lambda>t. t\<lparr>isDone := \<not> isDone x\<rparr>) a,
                map (\<lambda>r. if row_id r = i then update_row (now e) None (Some (\<not> isDone x)) r
                         else r) tbl)
          else (showSnackbar (time e)
                  (''Error: '' @ (if \<not> netOk e then networkError
                                  else if \<not> dbOk e then ''Failed to update task''
                                  else ''Task not found'')) a, tbl))"
  by (simp add: toggleTask_api_absent toggleTask_api_ok toggleTask_api_fail split: option.splits)

lemma deleteTask_api_eq:
  "deleteTask_api e i (a, tbl) =
     (case List.find (\<lambda>t. id_task t = i) (tasks a) of
        None \<Rightarrow> (a, tbl)
      | Some x \<Rightarrow>
          (let k = length (takeWhile (\<lambda>t. id_task t \<noteq> i) (tasks a))
           in if rowOk e i tbl
              then (a\<lparr>tasks := take k (tasks a) @ drop (Suc k) (tasks a), deletedTask := Some x,
                      deletedTaskIndex := int k, deletedAlias := None,
                      snackbarMessage := ''Deleted '' @ [CHR 0x22] @ title x @ [CHR 0x22],
                      snackbarActive := True, snackbarTimeout := Some (time e + 4000),
                      undoTimers := undoTimers a @ [time e + 5000]\<rparr>,
                    filter (\<lambda>r. row_id r \<noteq> i) tbl)
              else (a\<lparr>deletedTask := Some x, deletedTaskIndex := int k,
                      deletedAlias := Some k,
                      snackbarMessage := ''Error: '' @ (if \<not> netOk e then networkError
                        else if \<not> dbOk e then ''Failed to delete task''
                        else ''Task not found''),
                      snackbarActive := True, snackbarTimeout := Some (time e + 4000)\<rparr>, tbl)))"
  by (simp add: deleteTask_api_absent deleteTask_api_ok deleteTask_api_fail Let_def
      split: option.splits)


lemma deleteTask_local_eq:
  "deleteTask_local be i (a, st) =
     (case List.find (\<lambda>t. id_task t = i) (tasks a) of
        None \<Rightarrow> (a, st)
      | Some x \<Rightarrow>
          (let k = length (takeWhile (\<lambda>t. id_task t \<noteq> i) (tasks a));
               ts = take k (tasks a) @ drop (Suc k) (tasks a)
           in (a\<lparr>tasks := ts, deletedTask := Some x, deletedTaskIndex := int k,
                 deletedAlias := None,
                 snackbarMessage := ''Deleted '' @ [CHR 0x22] @ title x @ [CHR 0x22],
                 snackbarActive := True, snackbarTimeout := Some (at be + 4000)\<rparr>,
               if storageOk be then Some ts else st)))"
  by (simp add: deleteTask_local_absent deleteTask_local_found split: option.splits)


lemma tasks_saveTasks [simp]: "tasks (fst (saveTasks be (a, st))) = tasks a"
  by (simp add: saveTasks_eq)

text \<open>Rewriting with these equations runs a session on concrete data.\<close>

lemmas local_eval = step_local_def addTask_local_eq deleteTask_local_eq undoDelete_local_eq
  toggleTask_local_def editTask_local_def saveTasks_eq create_def mutate_def runTimers_def
  splice_js_def benv0_def trim_def isSpace_def new_app_def

lemmas api_eval = step_api_def addTask_api_eq deleteTask_api_eq undoDelete_api_eq
  toggleTask_api_eq postOk_def rowOk_def create_def new_row_def mutate_def update_row_def
  runTimers_def showSnackbar_def hideSnackbar_def splice_js_def networkError_def
  env0_def trim_def isSpace_def new_app_def

lemma toString_samples:
  "toString 1000 = ''1000''" "toString 2000 = ''2000''" "toString 3000 = ''3000''"
  "toString 4000 = ''4000''" "toString 14000 = ''14000''"
  by (simp_all add: toString.simps digit_def)

section \<open>Server and titles\<close>



section \<open>Runs of adds, and the order under toggle and edit\<close>









section \<open>Ids are renderings of the clock readings of the session\<close>








lemma ids_in_showSnackbar [simp]: "ids_in ns (showSnackbar t m a, tbl) = ids_in ns (a, tbl)"
  by (simp add: ids_in_def)












section \<open>Delete, its countdown and its rollback\<close>

text \<open>
  Claim C1. The expiry of a delete's countdown should clear the pending-undo record only if
  that record is still the one the countdown was scheduled for, so that after two deletes an
  undo between the two expiries restores the second task. The callback that \<open>deleteTask\<close>
  schedules clears whatever record is pending. Two tasks are deleted at 10000 and at 13000;
  the countdowns end at 15000 and 18000. At 16000 the first countdown has cleared the record
  of the second delete, and the undo restores nothing.
\<close>

theorem superseded_countdown_clears_newer_record:
  "run_api [(env0 1000, Add ''Buy milk''), (env0 2000, Add ''Make tea''),
            (env0 10000, Delete ''1000''), (env0 13000, Delete ''2000'')] (new_app, []) =
     (\<lparr>tasks = [], deletedTask = Some tea, deletedTaskIndex = 0,
        snackbarMessage = ''Deleted '' @ [CHR 0x22] @ ''Make tea'' @ [CHR 0x22],
        snackbarActive = True, snackbarTimeout = Some 17000, undoTimers = [15000, 18000],
        deletedAlias = None\<rparr>, []) \<and>
   run_api [(env0 1000, Add ''Buy milk''), (env0 2000, Add ''Make tea''),
            (env0 10000, Delete ''1000''), (env0 13000, Delete ''2000''),
            (env0 16000, UndoDelete)] (new_app, []) =
     (\<lparr>tasks = [], deletedTask = None, deletedTaskIndex = - 1,
        snackbarMessage = ''Deleted '' @ [CHR 0x22] @ ''Make tea'' @ [CHR 0x22],
        snackbarActive = True, snackbarTimeout = Some 17000, undoTimers = [18000],
        deletedAlias = None\<rparr>, [])"
  by (simp add: api_eval toString_samples tea_def)

text \<open>
  In general: once any scheduled expiry is due, no pending-undo record is left, whichever
  delete it came from.
\<close>

lemma expiry_clears_any_record:
  assumes "x \<in> set (undoTimers a)" and "x \<le> t"
  shows "deletedTask (runTimers t a) = None"
proof -
  have "filter (\<lambda>x. x \<le> t) (undoTimers a) \<noteq> []"
    using assms by (auto simp: filter_empty_conv)
  then show ?thesis
    by (simp add: runTimers_def Let_def split: option.splits)
qed

text \<open>Undone at 14000, before either countdown ends, the second task comes back.\<close>

lemma undo_inside_both_countdowns:
  "tasks (fst (run_api [(env0 1000, Add ''Buy milk''), (env0 2000, Add ''Make tea''),
            (env0 10000, Delete ''1000''), (env0 13000, Delete ''2000''),
            (env0 14000, UndoDelete)] (new_app, []))) =
     [\<lparr>id_task = ''14000'', title = ''Make tea'', isDone = False, createdAt = 14000\<rparr>]"
  by (simp add: api_eval toString_samples)

text \<open>
  Claim C2. When the backend delete fails, the captured task should be back at its captured
  position and the pending-undo record cleared, so that no undo remains possible.
  \<open>deleteTask\<close> puts the task back (\<open>deleteTask_api_fail\<close> above) and keeps the record:
  after a delete with the database down the sequence is as before, the record holds the
  task, and an undo then adds a second "Buy milk".
\<close>

theorem failed_delete_keeps_undo_record:
  "run_api [(env0 1000, Add ''Buy milk''), ((env0 2000)\<lparr>dbOk := False\<rparr>, Delete ''1000'')]
       (new_app, []) =
     (\<lparr>tasks = [milk], deletedTask = Some milk, deletedTaskIndex = 0,
        snackbarMessage = ''Error: Failed to delete task'', snackbarActive = True,
        snackbarTimeout = Some 6000, undoTimers = [], deletedAlias = Some 0\<rparr>, [milk_row]) \<and>
   tasks (fst (run_api [(env0 1000, Add ''Buy milk''),
                        ((env0 2000)\<lparr>dbOk := False\<rparr>, Delete ''1000''),
                        (env0 3000, UndoDelete)] (new_app, []))) =
     [\<lparr>id_task = ''3000'', title = ''Buy milk'', isDone = False, createdAt = 3000\<rparr>, milk]"
  by (simp add: api_eval toString_samples milk_def milk_row_def)

section \<open>Undo\<close>




section \<open>The two variants\<close>






section \<open>Adding\<close>



section \<open>Ids\<close>

text \<open>
  Claim C6. Every id should occur once in the in-memory sequence, any two adds allocating
  distinct ids. \<open>Task.create\<close> takes the id from \<open>Date.now()\<close>: two adds of the
  local-storage client within one millisecond give two tasks with the id 1000.
\<close>

theorem same_millisecond_same_id:
  "tasks (fst (run_local [(benv0 1000, Add ''Buy milk''), (benv0 1000, Add ''Make tea'')]
       (new_app, None))) =
     [\<lparr>id_task = ''1000'', title = ''Make tea'', isDone = False, createdAt = 1000\<rparr>, milk] \<and>
   \<not> distinct (map id_task (tasks (fst (run_local
       [(benv0 1000, Add ''Buy milk''), (benv0 1000, Add ''Make tea'')] (new_app, None)))))"
  by (simp add: local_eval toString_samples milk_def)

text \<open>
  The API variant keeps ids unique: the primary key refuses a second row with the id, and
  the client only adds what the server created.
\<close>

lemma ids_unique_api:
  "distinct (map id_task (tasks (fst (run_api tr (new_app, []))))) \<and>
   distinct (map row_id (snd (run_api tr (new_app, [])))) \<and>
   set (map id_task (tasks (fst (run_api tr (new_app, []))))) \<subseteq>
     set (map row_id (snd (run_api tr (new_app, []))))"
  using uniq_api_run [OF uniq_api_init, of tr]
  by (simp add: uniq_api_def task_ids_def row_ids_def)

section \<open>Titles\<close>




section \<open>Order of the sequence\<close>



section \<open>The REST routes on unknown and known ids\<close>

text \<open>
  Claim C9. When no row of the table has the id, \<open>PUT /api/tasks/:id\<close> and
  \<open>DELETE /api/tasks/:id\<close> leave the table as it is, and, the statement having been
  executed, both answer 404 with \<open>{success: false, error: "Task not found"}\<close>.
\<close>

theorem unknown_id_not_found:
  assumes "i \<notin> set (map row_id tbl)"
  shows "snd (put_task e i b tbl) = tbl \<and> snd (delete_task e i tbl) = tbl \<and>
     (dbOk e \<longrightarrow>
        fst (put_task e i b tbl) =
          \<lparr>status = 404, success = False, data = NoData, error = Some ''Task not found'',
             message = None\<rparr> \<and>
        fst (delete_task e i tbl) =
          \<lparr>status = 404, success = False, data = NoData, error = Some ''Task not found'',
             message = None\<rparr>)"
  using assms
  by (simp add: put_task_def delete_task_def query_def sql_update_def sql_delete_def
      filter_unknown_id filter_other_ids update_unknown_id Let_def failure_def)

theorem unknown_id_not_found_witness:
  "''2000'' \<notin> set (map row_id [milk_row]) \<and> dbOk (env0 3000) \<and>
   put_task (env0 3000) ''2000'' \<lparr>b_title = Some ''Walk'', b_isDone = Some True\<rparr> [milk_row] =
     (\<lparr>status = 404, success = False, data = NoData, error = Some ''Task not found'',
        message = None\<rparr>, [milk_row]) \<and>
   delete_task (env0 3000) ''2000'' [milk_row] =
     (\<lparr>status = 404, success = False, data = NoData, error = Some ''Task not found'',
        message = None\<rparr>, [milk_row])"
proof -
  have h: "''2000'' \<notin> set (map row_id [milk_row])"
    by (simp add: milk_row_def)
  have d: "dbOk (env0 3000)"
    by (simp add: env0_def)
  show ?thesis
    using h d unknown_id_not_found [OF h, of "env0 3000"
        "\<lparr>b_title = Some ''Walk'', b_isDone = Some True\<rparr>"]
    by (simp add: prod_eq_iff)
qed



end
